theory Spec2Isabelle
  imports Complex_Main
begin

section \<open>Characters, numerals and the runtime's string functions\<close>

text \<open>
  The program is \<^verbatim>\<open>textgrid.py\<close>, one class \<^verbatim>\<open>TextGrid\<close>. Its strings are modelled
  as \<^typ>\<open>string\<close> and the text is taken to be ASCII: the character classes below are
  the ASCII part of what \<^verbatim>\<open>re\<close> matches with \<^verbatim>\<open>\s\<close>, \<^verbatim>\<open>\d\<close> and \<^verbatim>\<open>\w\<close> on a \<^verbatim>\<open>str\<close>.
\<close>

abbreviation DQ :: char where "DQ \<equiv> CHR 0x22"
abbreviation TAB :: char where "TAB \<equiv> CHR 0x09"
abbreviation NL :: char where "NL \<equiv> CHR 0x0A"
abbreviation CR :: char where "CR \<equiv> CHR 0x0D"

definition is_space :: "char \<Rightarrow> bool" where
  "is_space c = (c \<in> set [CHR 0x09, CHR 0x0A, CHR 0x0B, CHR 0x0C, CHR 0x0D,
                            CHR 0x1C, CHR 0x1D, CHR 0x1E, CHR 0x1F, CHR 0x20])"

definition is_digit :: "char \<Rightarrow> bool" where
  "is_digit c = (c \<in> set ''0123456789'')"

definition is_word :: "char \<Rightarrow> bool" where
  "is_word c = (c \<in> set ''abcdefghijklmnopqrstuvwxyzABCDEFGHIJKLMNOPQRSTUVWXYZ0123456789_'')"

text \<open>\<^verbatim>\<open>str.rfind\<close> of a one-character needle: the last index, or -1.\<close>

definition rfind :: "char \<Rightarrow> string \<Rightarrow> int" where
  "rfind c p = (if c \<in> set p
                then int (length p) - 1 - int (length (takeWhile (\<lambda>x. x \<noteq> c) (rev p)))
                else - 1)"

text \<open>
  \<^verbatim>\<open>os.path.splitext\<close> (posixpath: separator \<^verbatim>\<open>/\<close>, no alternative separator,
  extension separator \<^verbatim>\<open>.\<close>). The extension starts at the last dot of the last path
  component, unless that component has only dots before it; leading dots of the file name
  are skipped.
\<close>

definition splitext :: "string \<Rightarrow> string \<times> string" where
  "splitext p =
     (let sepIndex = rfind (CHR ''/'') p;
          dotIndex = rfind (CHR ''.'') p
      in if dotIndex > sepIndex
            \<and> list_ex (\<lambda>c. c \<noteq> CHR ''.'') (drop (nat (sepIndex + 1)) (take (nat dotIndex) p))
         then (take (nat dotIndex) p, drop (nat dotIndex) p)
         else (p, []))"

section \<open>The document\<close>

text \<open>
  The raise sites of the source, by the names the specification gives them. All of
  \<open>UnsupportedFormatError\<close>, \<open>MismatchedOperationError\<close> and \<open>StructureError\<close> are
  \<^verbatim>\<open>ValueError\<close> in the source, with the messages
  \<^verbatim>\<open>Unsupported file extension\<close>, \<^verbatim>\<open>Invalid file extension for ...\<close> and
  \<^verbatim>\<open>There are too many tiers\<close>. \<open>TypeError\<close> is the comparison of an \<^verbatim>\<open>int\<close> with
  \<^verbatim>\<open>None\<close>, \<open>FloatValueError\<close> the \<^verbatim>\<open>ValueError\<close> of \<^verbatim>\<open>float()\<close> on a string that is
  no number, \<open>OSError\<close> a file that cannot be opened, \<open>TableError\<close> a failure of the
  external table component.
\<close>

datatype error =
    UnsupportedFormatError
  | MismatchedOperationError
  | StructureError
  | TypeError
  | FloatValueError
  | OSError
  | TableError

text \<open>
  A Python \<^verbatim>\<open>float\<close> is modelled by the rational number its decimal numeral denotes;
  rounding to binary64 is left out. The model is exact wherever the numeral has at most
  15 significant digits and prints positionally, which covers the values used below.
\<close>

type_synonym pyfloat = rat

text \<open>
  The instance fields of \<^verbatim>\<open>TextGrid\<close>. \<^verbatim>\<open>self.content\<close> is a dictionary of four lists,
  here four fields. A tier label is \<^verbatim>\<open>None\<close> when no \<^verbatim>\<open>name\<close> line came before the
  \<^verbatim>\<open>intervals: size\<close> line that reserved it. \<^verbatim>\<open>tier_list\<close> is \<^verbatim>\<open>list(set(...))\<close>, of
  unspecified order, and is kept as a set.
\<close>

record textgrid =
  file_path :: string
  file_type :: "string option"
  object_class :: "string option"
  xmin :: "pyfloat option"
  xmax :: "pyfloat option"
  tiers :: "string option"
  n_tiers :: "int option"
  tier_list :: "string option set"
  content_tier :: "string option list"
  content_start :: "pyfloat list"
  content_end :: "pyfloat list"
  content_annotation :: "string list"

text \<open>The fields as \<^verbatim>\<open>__init__\<close> sets them before it reads the file (lines 19-27).\<close>

definition new_textgrid :: "string \<Rightarrow> textgrid" where
  "new_textgrid path =
     \<lparr> file_path = path, file_type = None, object_class = None, xmin = None, xmax = None,
       tiers = None, n_tiers = None, tier_list = {},
       content_tier = [], content_start = [], content_end = [], content_annotation = [] \<rparr>"

section \<open>Numbers read and written\<close>

text \<open>\<^verbatim>\<open>int()\<close> of a run of decimal digits, as the patterns capture it with \<^verbatim>\<open>\d+\<close>.\<close>

definition digit_val :: "char \<Rightarrow> nat" where
  "digit_val c = of_char c - 48"

definition py_int :: "string \<Rightarrow> int" where
  "py_int s = int (foldl (\<lambda>a c. 10 * a + digit_val c) 0 s)"

text \<open>
  \<^verbatim>\<open>float()\<close> of a captured group. The groups it is applied to are made of digits and
  dots only (\<^verbatim>\<open>\d+\.\d+\<close> or \<^verbatim>\<open>\d*\.*\d*\<close>); of these \<^verbatim>\<open>float()\<close> accepts the ones with at
  most one dot and at least one digit (\<^verbatim>\<open>0\<close>, \<^verbatim>\<open>1.\<close>, \<^verbatim>\<open>.5\<close>, \<^verbatim>\<open>1.5\<close>) and raises
  \<^verbatim>\<open>ValueError\<close> on the others (the empty string, \<^verbatim>\<open>.\<close>, \<^verbatim>\<open>1..2\<close>).
\<close>

definition py_float :: "string \<Rightarrow> error + pyfloat" where
  "py_float s =
     (let ip = takeWhile is_digit s; r = dropWhile is_digit s
      in case r of
           [] \<Rightarrow> if ip = [] then Inl FloatValueError else Inr (of_int (py_int ip))
         | c # fp \<Rightarrow>
             if c = CHR ''.'' \<and> list_all is_digit fp \<and> ip @ fp \<noteq> []
             then Inr (of_int (py_int ip) + of_int (py_int fp) / 10 ^ length fp)
             else Inl FloatValueError)"

text \<open>The decimal form of an \<^verbatim>\<open>int\<close>, as an f-string writes it.\<close>

definition digit_char :: "nat \<Rightarrow> char" where
  "digit_char d = char_of (48 + d)"

fun show_nat :: "nat \<Rightarrow> string" where
  "show_nat n = (if n < 10 then [digit_char n] else show_nat (n div 10) @ [digit_char (n mod 10)])"

declare show_nat.simps [simp del]

definition show_int :: "int \<Rightarrow> string" where
  "show_int i = (if i < 0 then CHR ''-'' # show_nat (nat (- i)) else show_nat (nat i))"

text \<open>
  The form an f-string gives a \<^verbatim>\<open>float\<close>: the integer part, a dot, the fractional digits
  (\<^verbatim>\<open>0.0\<close>, \<^verbatim>\<open>0.5\<close>, \<^verbatim>\<open>177.54\<close>), at most 17 of them.
\<close>

fun frac_digits :: "nat \<Rightarrow> rat \<Rightarrow> string" where
  "frac_digits 0 r = []"
| "frac_digits (Suc k) r =
     (if r = 0 then []
      else digit_char (nat \<lfloor>r * 10\<rfloor>) # frac_digits k (r * 10 - of_int \<lfloor>r * 10\<rfloor>))"

definition show_float_abs :: "pyfloat \<Rightarrow> string" where
  "show_float_abs q =
     show_nat (nat \<lfloor>q\<rfloor>) @ ''.'' @
     (if q - of_int \<lfloor>q\<rfloor> = 0 then ''0'' else frac_digits 17 (q - of_int \<lfloor>q\<rfloor>))"

definition show_float :: "pyfloat \<Rightarrow> string" where
  "show_float q = (if q < 0 then CHR ''-'' # show_float_abs (- q) else show_float_abs q)"

text \<open>A field that may be \<^verbatim>\<open>None\<close> is written \<^verbatim>\<open>None\<close> by an f-string.\<close>

definition fmt_str :: "string option \<Rightarrow> string" where
  "fmt_str v = (case v of None \<Rightarrow> ''None'' | Some s \<Rightarrow> s)"

definition fmt_float :: "pyfloat option \<Rightarrow> string" where
  "fmt_float v = (case v of None \<Rightarrow> ''None'' | Some q \<Rightarrow> show_float q)"

definition fmt_int :: "int option \<Rightarrow> string" where
  "fmt_int v = (case v of None \<Rightarrow> ''None'' | Some i \<Rightarrow> show_int i)"

section \<open>The line patterns\<close>

text \<open>
  Each pattern is tried with \<^verbatim>\<open>re.match\<close>: anchored at the start of the line, free at
  its end. The pieces of a pattern consume a prefix of what is left of the line.
  \<open>lit\<close> is a literal, \<open>ws1\<close> is \<^verbatim>\<open>\s\<close>, \<open>ws_plus\<close> is a leading \<^verbatim>\<open>\s+\<close> (greedy; the
  literal after it starts with no space, so giving characters back never helps).
\<close>

definition lit :: "string \<Rightarrow> string \<Rightarrow> string option" where
  "lit w s = (if take (length w) s = w then Some (drop (length w) s) else None)"

definition ws1 :: "string \<Rightarrow> string option" where
  "ws1 s = (case s of [] \<Rightarrow> None | c # r \<Rightarrow> if is_space c then Some r else None)"

definition ws_plus :: "string \<Rightarrow> string option" where
  "ws_plus s = (if takeWhile is_space s = [] then None else Some (dropWhile is_space s))"

fun run :: "(string \<Rightarrow> string option) list \<Rightarrow> string \<Rightarrow> string option" where
  "run [] s = Some s"
| "run (m # ms) s = (case m s of None \<Rightarrow> None | Some r \<Rightarrow> run ms r)"

text \<open>\<^verbatim>\<open>(\d+)\<close>: the longest run of digits, not empty; the group and what follows it.\<close>

definition digits_plus :: "string \<Rightarrow> (string \<times> string) option" where
  "digits_plus s =
     (if takeWhile is_digit s = [] then None
      else Some (takeWhile is_digit s, dropWhile is_digit s))"

text \<open>
  \<^verbatim>\<open>(.*)\<close> followed by the closing character \<open>c\<close>: \<^verbatim>\<open>.\<close> matches all but a newline and
  the star is greedy, so the group runs to the last \<open>c\<close> of the line.
\<close>

definition upto_last :: "char \<Rightarrow> string \<Rightarrow> string option" where
  "upto_last c s =
     (let seg = takeWhile (\<lambda>x. x \<noteq> NL) s
      in if c \<in> set seg then Some (rev (tl (dropWhile (\<lambda>x. x \<noteq> c) (rev seg)))) else None)"

text \<open>\<^verbatim>\<open>(\w+)\"\<close>: the longest run of word characters, not empty, then the quote.\<close>

definition word_quoted :: "string \<Rightarrow> string option" where
  "word_quoted s =
     (if takeWhile is_word s \<noteq> [] \<and> take 1 (dropWhile is_word s) = [DQ]
      then Some (takeWhile is_word s) else None)"

text \<open>\<^verbatim>\<open>(\d+\.\d+)\<close>: digits, a dot, digits.\<close>

definition strict_number :: "string \<Rightarrow> string option" where
  "strict_number s =
     (case digits_plus s of
        None \<Rightarrow> None
      | Some (d1, r) \<Rightarrow>
          (case lit ''.'' r of
             None \<Rightarrow> None
           | Some r' \<Rightarrow>
               (case digits_plus r' of
                  None \<Rightarrow> None
                | Some (d2, u) \<Rightarrow> Some (d1 @ ''.'' @ d2))))"

text \<open>\<^verbatim>\<open>(\d*\.*\d*)\<close>: any digits, any dots, any digits; it matches always, maybe nothing.\<close>

definition loose_number :: "string \<Rightarrow> string" where
  "loose_number s =
     (let d1 = takeWhile is_digit s; r1 = dropWhile is_digit s;
          dots = takeWhile (\<lambda>c. c = CHR ''.'') r1; r2 = dropWhile (\<lambda>c. c = CHR ''.'') r1
      in d1 @ dots @ takeWhile is_digit r2)"

text \<open>The twelve patterns of \<^verbatim>\<open>_parse_textgrid\<close>, in the order of the source; each
  gives group 1 of the match, or \<open>None\<close>.\<close>

definition match_file_type :: "string \<Rightarrow> string option" where
  "match_file_type line =
     Option.bind (run [lit ''File'', ws1, lit ''type'', ws1, lit ''='', ws1, lit [DQ]] line)
       word_quoted"

definition match_object_class :: "string \<Rightarrow> string option" where
  "match_object_class line =
     Option.bind (run [lit ''Object'', ws1, lit ''class'', ws1, lit ''='', ws1, lit [DQ]] line)
       word_quoted"

definition match_xmin :: "string \<Rightarrow> string option" where
  "match_xmin line = Option.bind (run [lit ''xmin'', ws1, lit ''='', ws1] line) strict_number"

definition match_xmax :: "string \<Rightarrow> string option" where
  "match_xmax line = Option.bind (run [lit ''xmax'', ws1, lit ''='', ws1] line) strict_number"

definition match_tiers :: "string \<Rightarrow> string option" where
  "match_tiers line =
     Option.bind (run [lit ''tiers?'', ws1, lit ''<''] line) (upto_last (CHR ''>''))"

definition match_size :: "string \<Rightarrow> string option" where
  "match_size line =
     map_option fst (Option.bind (run [lit ''size'', ws1, lit ''='', ws1] line) digits_plus)"

definition match_item :: "string \<Rightarrow> string option" where
  "match_item line =
     Option.bind (Option.bind (run [ws_plus, lit ''item'', ws1, lit ''[''] line) digits_plus)
       (\<lambda>(d, r). map_option (\<lambda>u. d) (lit '']'' r))"

definition match_name :: "string \<Rightarrow> string option" where
  "match_name line =
     Option.bind (run [ws_plus, lit ''name'', ws1, lit ''='', ws1, lit [DQ]] line) (upto_last DQ)"

definition match_intervals_size :: "string \<Rightarrow> string option" where
  "match_intervals_size line =
     map_option fst
       (Option.bind (run [ws_plus, lit ''intervals:'', ws1, lit ''size'', ws1, lit ''='', ws1] line)
          digits_plus)"

definition match_interval_xmin :: "string \<Rightarrow> string option" where
  "match_interval_xmin line =
     map_option loose_number (run [ws_plus, lit ''xmin'', ws1, lit ''='', ws1] line)"

definition match_interval_xmax :: "string \<Rightarrow> string option" where
  "match_interval_xmax line =
     map_option loose_number (run [ws_plus, lit ''xmax'', ws1, lit ''='', ws1] line)"

definition match_text :: "string \<Rightarrow> string option" where
  "match_text line =
     Option.bind (run [ws_plus, lit ''text'', ws1, lit ''='', ws1, lit [DQ]] line) (upto_last DQ)"

section \<open>Parsing\<close>

text \<open>
  The loop of \<^verbatim>\<open>_parse_textgrid\<close> works on the instance and two locals,
  \<^verbatim>\<open>tier_header\<close> and \<^verbatim>\<open>tier_name\<close>.
\<close>

record parse_state =
  self :: textgrid
  tier_header :: bool
  tier_name :: "string option"

text \<open>
  The header patterns (lines 53-81). \<^verbatim>\<open>xmin\<close> and \<^verbatim>\<open>xmax\<close> are taken only while no
  tier name has been seen.
\<close>

definition on_file_type :: "string \<Rightarrow> parse_state \<Rightarrow> error + parse_state" where
  "on_file_type line st =
     (case match_file_type line of
        None \<Rightarrow> Inr st
      | Some g \<Rightarrow> Inr (st\<lparr>self := (self st)\<lparr>file_type := Some g\<rparr>\<rparr>))"

definition on_object_class :: "string \<Rightarrow> parse_state \<Rightarrow> error + parse_state" where
  "on_object_class line st =
     (case match_object_class line of
        None \<Rightarrow> Inr st
      | Some g \<Rightarrow> Inr (st\<lparr>self := (self st)\<lparr>object_class := Some g\<rparr>\<rparr>))"

definition on_xmin :: "string \<Rightarrow> parse_state \<Rightarrow> error + parse_state" where
  "on_xmin line st =
     (case match_xmin line of
        None \<Rightarrow> Inr st
      | Some g \<Rightarrow>
          if tier_name st = None
          then (case py_float g of
                  Inl e \<Rightarrow> Inl e
                | Inr v \<Rightarrow> Inr (st\<lparr>self := (self st)\<lparr>xmin := Some v\<rparr>\<rparr>))
          else Inr st)"

definition on_xmax :: "string \<Rightarrow> parse_state \<Rightarrow> error + parse_state" where
  "on_xmax line st =
     (case match_xmax line of
        None \<Rightarrow> Inr st
      | Some g \<Rightarrow>
          if tier_name st = None
          then (case py_float g of
                  Inl e \<Rightarrow> Inl e
                | Inr v \<Rightarrow> Inr (st\<lparr>self := (self st)\<lparr>xmax := Some v\<rparr>\<rparr>))
          else Inr st)"

definition on_tiers :: "string \<Rightarrow> parse_state \<Rightarrow> error + parse_state" where
  "on_tiers line st =
     (case match_tiers line of
        None \<Rightarrow> Inr st
      | Some g \<Rightarrow> Inr (st\<lparr>self := (self st)\<lparr>tiers := Some g\<rparr>\<rparr>))"

definition on_size :: "string \<Rightarrow> parse_state \<Rightarrow> error + parse_state" where
  "on_size line st =
     (case match_size line of
        None \<Rightarrow> Inr st
      | Some g \<Rightarrow> Inr (st\<lparr>self := (self st)\<lparr>n_tiers := Some (py_int g)\<rparr>\<rparr>))"

text \<open>
  \<^verbatim>\<open>item [N]\<close> (lines 86-94). The comparison \<^verbatim>\<open>tier_idx >= self.n_tiers\<close> raises
  \<^verbatim>\<open>TypeError\<close> while \<^verbatim>\<open>self.n_tiers\<close> is \<^verbatim>\<open>None\<close>.
\<close>

definition on_item :: "string \<Rightarrow> parse_state \<Rightarrow> error + parse_state" where
  "on_item line st =
     (case match_item line of
        None \<Rightarrow> Inr st
      | Some g \<Rightarrow>
          (let idx = py_int g; tier_idx = idx - 1
           in case n_tiers (self st) of
                None \<Rightarrow> Inl TypeError
              | Some n \<Rightarrow>
                  if tier_idx \<ge> n then Inl StructureError
                  else Inr (st\<lparr>tier_header := True\<rparr>)))"

text \<open>\<^verbatim>\<open>name = "..."\<close> and \<^verbatim>\<open>intervals: size = N\<close> (lines 97-106).\<close>

definition on_name :: "string \<Rightarrow> parse_state \<Rightarrow> error + parse_state" where
  "on_name line st =
     (case match_name line of None \<Rightarrow> Inr st | Some g \<Rightarrow> Inr (st\<lparr>tier_name := Some g\<rparr>))"

definition on_intervals_size :: "string \<Rightarrow> parse_state \<Rightarrow> error + parse_state" where
  "on_intervals_size line st =
     (case match_intervals_size line of
        None \<Rightarrow> Inr st
      | Some g \<Rightarrow>
          Inr (st\<lparr>self := (self st)\<lparr>content_tier :=
                      content_tier (self st) @ replicate (nat (py_int g)) (tier_name st)\<rparr>,
                  tier_header := False\<rparr>))"

text \<open>The interval lines (lines 109-124), taken only while \<^verbatim>\<open>tier_header\<close> is false.\<close>

definition on_interval_xmin :: "string \<Rightarrow> parse_state \<Rightarrow> error + parse_state" where
  "on_interval_xmin line st =
     (case match_interval_xmin line of
        None \<Rightarrow> Inr st
      | Some g \<Rightarrow>
          if \<not> tier_header st
          then (case py_float g of
                  Inl e \<Rightarrow> Inl e
                | Inr start \<Rightarrow>
                    Inr (st\<lparr>self := (self st)\<lparr>content_start := content_start (self st) @ [start]\<rparr>\<rparr>))
          else Inr st)"

definition on_interval_xmax :: "string \<Rightarrow> parse_state \<Rightarrow> error + parse_state" where
  "on_interval_xmax line st =
     (case match_interval_xmax line of
        None \<Rightarrow> Inr st
      | Some g \<Rightarrow>
          if \<not> tier_header st
          then (case py_float g of
                  Inl e \<Rightarrow> Inl e
                | Inr end_t \<Rightarrow>
                    Inr (st\<lparr>self := (self st)\<lparr>content_end := content_end (self st) @ [end_t]\<rparr>\<rparr>))
          else Inr st)"

definition on_text :: "string \<Rightarrow> parse_state \<Rightarrow> error + parse_state" where
  "on_text line st =
     (case match_text line of
        None \<Rightarrow> Inr st
      | Some annotation \<Rightarrow>
          if \<not> tier_header st
          then Inr (st\<lparr>self := (self st)\<lparr>content_annotation :=
                           content_annotation (self st) @ [annotation]\<rparr>\<rparr>)
          else Inr st)"

text \<open>
  One turn of the loop: every pattern is tried on the line, in the order of the source,
  each on the state the one before left; a raise ends the parse.
\<close>

fun steps ::
  "(string \<Rightarrow> parse_state \<Rightarrow> error + parse_state) list \<Rightarrow> string \<Rightarrow> parse_state \<Rightarrow>
   error + parse_state" where
  "steps [] line st = Inr st"
| "steps (f # fs) line st = (case f line st of Inl e \<Rightarrow> Inl e | Inr st' \<Rightarrow> steps fs line st')"

definition parse_line :: "string \<Rightarrow> parse_state \<Rightarrow> error + parse_state" where
  "parse_line line st =
     steps [on_file_type, on_object_class, on_xmin, on_xmax, on_tiers, on_size,
            on_item, on_name, on_intervals_size,
            on_interval_xmin, on_interval_xmax, on_text] line st"

fun parse_lines :: "string list \<Rightarrow> parse_state \<Rightarrow> error + parse_state" where
  "parse_lines [] st = Inr st"
| "parse_lines (line # rest) st =
     (case parse_line line st of Inl e \<Rightarrow> Inl e | Inr st' \<Rightarrow> parse_lines rest st')"

text \<open>
  \<^verbatim>\<open>str.splitlines\<close>: a line ends at \<^verbatim>\<open>\n\<close>, \<^verbatim>\<open>\r\<close>, \<^verbatim>\<open>\r\n\<close>, \<^verbatim>\<open>\v\<close>, \<^verbatim>\<open>\f\<close> and the
  separators 0x1C to 0x1E; the ends are dropped, and a text that ends with a line end
  has no empty last line. \<open>cur\<close> is the line being read.
\<close>

definition is_linebreak :: "char \<Rightarrow> bool" where
  "is_linebreak c = (c \<in> set [CHR 0x0A, CHR 0x0B, CHR 0x0C, CHR 0x0D, CHR 0x1C, CHR 0x1D, CHR 0x1E])"

fun splitlines_from :: "string \<Rightarrow> string \<Rightarrow> string list" where
  "splitlines_from cur [] = (if cur = [] then [] else [cur])"
| "splitlines_from cur [c] = (if is_linebreak c then [cur] else [cur @ [c]])"
| "splitlines_from cur (c # d # cs) =
     (if c = CR \<and> d = NL then cur # splitlines_from [] cs
      else if is_linebreak c then cur # splitlines_from [] (d # cs)
      else splitlines_from (cur @ [c]) (d # cs))"

definition splitlines :: "string \<Rightarrow> string list" where
  "splitlines text = splitlines_from [] text"

definition start_state :: "textgrid \<Rightarrow> parse_state" where
  "start_state doc = \<lparr> self = doc, tier_header = True, tier_name = None \<rparr>"

text \<open>The loop over a text, and the last statement, which sets \<^verbatim>\<open>tier_list\<close>.\<close>

definition parse_text :: "string \<Rightarrow> textgrid \<Rightarrow> error + textgrid" where
  "parse_text text doc =
     (case parse_lines (splitlines text) (start_state doc) of
        Inl e \<Rightarrow> Inl e
      | Inr st \<Rightarrow> Inr ((self st)\<lparr>tier_list := set (content_tier (self st))\<rparr>))"

text \<open>\<^verbatim>\<open>_parse_textgrid\<close>. The file system is a map from paths to texts.\<close>

definition parse_textgrid :: "(string \<rightharpoonup> string) \<Rightarrow> textgrid \<Rightarrow> error + textgrid" where
  "parse_textgrid fs doc =
     (case fs (file_path doc) of
        None \<Rightarrow> Inl OSError
      | Some text \<Rightarrow> parse_text text doc)"

section \<open>The table side\<close>

text \<open>
  The table component (pandas) is not part of the program. \<open>read_table\<close> stands for
  \<^verbatim>\<open>pd.DataFrame(self.file_path)\<close> followed by the selection of the four columns
  \<^verbatim>\<open>names[0]\<close> to \<^verbatim>\<open>names[3]\<close>: the columns, or the error it raises.
\<close>

type_synonym columns = "string option list \<times> pyfloat list \<times> pyfloat list \<times> string list"

definition parse_csv ::
  "(string \<Rightarrow> string list \<Rightarrow> error + columns) \<Rightarrow> string list \<Rightarrow> textgrid \<Rightarrow> error + textgrid" where
  "parse_csv read_table names doc =
     (case read_table (file_path doc) names of
        Inl e \<Rightarrow> Inl e
      | Inr (t, s, e, a) \<Rightarrow>
          Inr (doc\<lparr>content_tier := t, content_start := s, content_end := e,
                  content_annotation := a\<rparr>))"

text \<open>\<^verbatim>\<open>__init__\<close> (lines 19-36).\<close>

definition TextGrid_init ::
  "(string \<rightharpoonup> string) \<Rightarrow> (string \<Rightarrow> string list \<Rightarrow> error + columns) \<Rightarrow>
   string \<Rightarrow> string list \<Rightarrow> error + textgrid" where
  "TextGrid_init fs read_table path names =
     (let extension = snd (splitext path)
      in if extension \<in> set [''textgrid'', ''TextGrid'']
         then parse_textgrid fs (new_textgrid path)
         else if extension \<in> set [''csv'', ''CSV'']
         then parse_csv read_table names (new_textgrid path)
         else Inl UnsupportedFormatError)"

text \<open>
  \<^verbatim>\<open>to_csv\<close> (lines 154-164). What it hands to the table writer is the target path and
  the four columns of \<^verbatim>\<open>self.content\<close>.
\<close>

definition to_csv :: "textgrid \<Rightarrow> string \<Rightarrow> error + string \<times> columns" where
  "to_csv doc path =
     (let extension = snd (splitext path)
      in if extension \<in> set [''textgrid'', ''TextGrid'']
         then Inl MismatchedOperationError
         else if extension \<in> set [''csv'', ''CSV'']
         then Inr (path, content_tier doc, content_start doc, content_end doc,
                   content_annotation doc)
         else Inl UnsupportedFormatError)"

section \<open>Writing a TextGrid\<close>

text \<open>
  \<^verbatim>\<open>to_textgrid\<close> builds the text with one \<^verbatim>\<open>text += ...\<close> per line; the model keeps the
  added pieces in a list, in order, and the text is their concatenation.
\<close>

definition header_text :: "textgrid \<Rightarrow> string list" where
  "header_text doc =
     [''File type = '' @ [DQ] @ fmt_str (file_type doc) @ [DQ, NL],
      ''Object class = '' @ [DQ] @ fmt_str (object_class doc) @ [DQ, NL],
      [NL],
      ''xmin '' @ fmt_float (xmin doc) @ [NL],
      ''xmax '' @ fmt_float (xmax doc) @ [NL],
      ''tiers? <'' @ fmt_str (tiers doc) @ ''>'' @ [NL],
      ''size = '' @ fmt_int (n_tiers doc) @ [NL],
      ''item[]'' @ [NL]]"

definition tier_text :: "textgrid \<Rightarrow> nat \<Rightarrow> string option \<Rightarrow> string list" where
  "tier_text doc tier_idx tier =
     (let tier_size = length (filter (\<lambda>el. el = tier) (content_tier doc))
      in [[TAB] @ ''item ['' @ show_nat tier_idx @ '']'' @ [NL],
          [TAB, TAB] @ ''class = '' @ [DQ] @ ''IntervalTier'' @ [DQ, NL],
          [TAB, TAB] @ ''name = '' @ [DQ] @ fmt_str tier @ [DQ, NL],
          [TAB, TAB] @ ''xmin = '' @ fmt_float (xmin doc) @ [NL],
          [TAB, TAB] @ ''xmax = '' @ fmt_float (xmax doc) @ [NL],
          [TAB, TAB] @ ''intervals: size = '' @ show_nat tier_size @ [NL]])"

definition interval_text :: "nat \<Rightarrow> pyfloat \<Rightarrow> pyfloat \<Rightarrow> string \<Rightarrow> string list" where
  "interval_text interval_idx start end_t annotation =
     [[TAB, TAB, TAB] @ ''intervals ['' @ show_nat interval_idx @ '']:'' @ [NL],
      [TAB, TAB, TAB, TAB] @ ''xmin = '' @ show_float start @ [NL],
      [TAB, TAB, TAB, TAB] @ ''xmax = '' @ show_float end_t @ [NL],
      [TAB, TAB, TAB, TAB] @ ''text = '' @ [DQ] @ annotation @ [DQ, NL]]"

text \<open>
  The loop over the rows (lines 196-224), with its three variables. \<^verbatim>\<open>last_tier\<close> is
  \<^verbatim>\<open>None\<close> at first, and again after a row whose label is \<^verbatim>\<open>None\<close>.
\<close>

fun rows_text ::
  "textgrid \<Rightarrow> string option \<Rightarrow> nat \<Rightarrow> nat \<Rightarrow>
   (string option \<times> pyfloat \<times> pyfloat \<times> string) list \<Rightarrow> string list" where
  "rows_text doc last_tier tier_idx interval_idx [] = []"
| "rows_text doc last_tier tier_idx interval_idx ((tier, start, end_t, annotation) # rows) =
     (if last_tier \<noteq> tier \<or> last_tier = None
      then tier_text doc tier_idx tier @ interval_text 1 start end_t annotation
           @ rows_text doc tier (tier_idx + 1) 2 rows
      else interval_text interval_idx start end_t annotation
           @ rows_text doc last_tier tier_idx (interval_idx + 1) rows)"

text \<open>The rows are the \<^verbatim>\<open>zip\<close> of the four columns.\<close>

definition zip_rows :: "textgrid \<Rightarrow> (string option \<times> pyfloat \<times> pyfloat \<times> string) list" where
  "zip_rows doc =
     zip (content_tier doc) (zip (content_start doc) (zip (content_end doc) (content_annotation doc)))"

definition textgrid_pieces :: "textgrid \<Rightarrow> string list" where
  "textgrid_pieces doc = header_text doc @ rows_text doc None 1 1 (zip_rows doc)"

definition textgrid_text :: "textgrid \<Rightarrow> string" where
  "textgrid_text doc = concat (textgrid_pieces doc)"

text \<open>
  A piece that opens an interval block: the line \<^verbatim>\<open>intervals [k]:\<close> behind three tabs.
  No other piece starts this way.
\<close>

definition is_interval_line :: "string \<Rightarrow> bool" where
  "is_interval_line p = (take 14 p = [TAB, TAB, TAB] @ ''intervals ['')"

text \<open>\<^verbatim>\<open>to_textgrid\<close> (lines 176-227): the extension check, then the text, then the file.\<close>

definition to_textgrid ::
  "(string \<rightharpoonup> string) \<Rightarrow> textgrid \<Rightarrow> string \<Rightarrow> error + (string \<rightharpoonup> string)" where
  "to_textgrid fs doc path =
     (let extension = snd (splitext path)
      in if extension \<in> set [''textgrid'', ''TextGrid'']
         then Inr (fs(path \<mapsto> textgrid_text doc))
         else if extension \<in> set [''csv'', ''CSV'']
         then Inl MismatchedOperationError
         else Inl UnsupportedFormatError)"


section \<open>Indented lines\<close>

text \<open>
  A line is indented at the word \<open>w\<close> when it starts with white space and \<open>w\<close> follows
  the white space. The six tier and interval patterns ask for this, each with its own word.
\<close>

definition indented :: "string \<Rightarrow> string \<Rightarrow> bool" where
  "indented w line =
     (takeWhile is_space line \<noteq> [] \<and> take (length w) (dropWhile is_space line) = w)"

section \<open>Example documents\<close>

text \<open>
  A document of three rows in two tiers, the rows of each tier together; and a document
  whose four columns have three, two, three and one entries.
\<close>

definition grouping_example :: textgrid where
  "grouping_example =
     (new_textgrid ''phones.TextGrid'')\<lparr>
       file_type := Some ''ooTextFile'', object_class := Some ''TextGrid'',
       xmin := Some 0, xmax := Some 1, tiers := Some ''exists'', n_tiers := Some 2,
       content_tier := [Some ''phones'', Some ''phones'', Some ''words''],
       content_start := [0, 1 / 2, 0],
       content_end := [1 / 2, 1, 1],
       content_annotation := [''sil'', ''k'', ''cat'']\<rparr>"

definition ragged_example :: textgrid where
  "ragged_example =
     (new_textgrid ''ragged.TextGrid'')\<lparr>
       content_tier := [Some ''phones'', Some ''phones'', Some ''words''],
       content_start := [0, 1 / 2],
       content_end := [1 / 2, 1, 1],
       content_annotation := [''sil'']\<rparr>"

text \<open>
  A text whose header declares two tiers and that has a third \<^verbatim>\<open>item\<close> line; and a text
  whose first \<^verbatim>\<open>item\<close> line comes with no \<^verbatim>\<open>size\<close> line before it.
\<close>

definition extra_tier_text :: string where
  "extra_tier_text =
     ''File type = '' @ [DQ] @ ''ooTextFile'' @ [DQ, NL] @
     ''Object class = '' @ [DQ] @ ''TextGrid'' @ [DQ, NL] @
     [NL] @
     ''xmin = 0.0'' @ [NL] @
     ''xmax = 1.0'' @ [NL] @
     ''tiers? <exists>'' @ [NL] @
     ''size = 2'' @ [NL] @
     ''item []:'' @ [NL] @
     ''    item [1]:'' @ [NL] @
     ''        name = '' @ [DQ] @ ''phones'' @ [DQ, NL] @
     ''        intervals: size = 0'' @ [NL] @
     ''    item [2]:'' @ [NL] @
     ''        name = '' @ [DQ] @ ''words'' @ [DQ, NL] @
     ''        intervals: size = 0'' @ [NL] @
     ''    item [3]:'' @ [NL] @
     ''        name = '' @ [DQ] @ ''notes'' @ [DQ, NL] @
     ''        intervals: size = 0'' @ [NL]"

definition no_size_text :: string where
  "no_size_text =
     ''File type = '' @ [DQ] @ ''ooTextFile'' @ [DQ, NL] @
     ''Object class = '' @ [DQ] @ ''TextGrid'' @ [DQ, NL] @
     [NL] @
     ''xmin = 0.0'' @ [NL] @
     ''xmax = 1.0'' @ [NL] @
     ''tiers? <exists>'' @ [NL] @
     ''item []:'' @ [NL] @
     ''    item [1]:'' @ [NL] @
     ''        name = '' @ [DQ] @ ''phones'' @ [DQ, NL] @
     ''        intervals: size = 0'' @ [NL]"

text \<open>
  Two states of the loop in the tier \<^verbatim>\<open>phones\<close>: in the tier's header, and in its
  interval run.
\<close>

definition header_state :: parse_state where
  "header_state = (start_state (new_textgrid ''z.TextGrid''))\<lparr>tier_name := Some ''phones''\<rparr>"

definition run_state :: parse_state where
  "run_state = header_state\<lparr>tier_header := False\<rparr>"

text \<open>
  A state in the interval run of the first of two tiers, with one row read; and the lines
  of the next tier's header, between its \<^verbatim>\<open>item\<close> line and its \<^verbatim>\<open>intervals: size\<close> line.
\<close>

definition second_tier_state :: parse_state where
  "second_tier_state =
     \<lparr> self = (new_textgrid ''z.TextGrid'')\<lparr>
         n_tiers := Some 2, content_tier := [Some ''phones''], content_start := [0],
         content_end := [1], content_annotation := [''sil'']\<rparr>,
       tier_header = False, tier_name = Some ''phones'' \<rparr>"

definition tier_header_lines :: "string list" where
  "tier_header_lines =
     [''        class = '' @ [DQ] @ ''IntervalTier'' @ [DQ],
      ''        name = '' @ [DQ] @ ''words'' @ [DQ],
      ''        xmin = 0.0'',
      ''        xmax = 1.0'']"

text \<open>
  A well-formed text with one tier of two intervals, every number written with a decimal
  point; and parsing, writing the text again and parsing what was written.
\<close>

definition well_formed_text :: string where
  "well_formed_text =
     ''File type = '' @ [DQ] @ ''ooTextFile'' @ [DQ, NL] @
     ''Object class = '' @ [DQ] @ ''TextGrid'' @ [DQ, NL] @
     [NL] @
     ''xmin = 0.0'' @ [NL] @
     ''xmax = 1.0'' @ [NL] @
     ''tiers? <exists>'' @ [NL] @
     ''size = 1'' @ [NL] @
     ''item []:'' @ [NL] @
     ''    item [1]:'' @ [NL] @
     ''        class = '' @ [DQ] @ ''IntervalTier'' @ [DQ, NL] @
     ''        name = '' @ [DQ] @ ''phones'' @ [DQ, NL] @
     ''        xmin = 0.0'' @ [NL] @
     ''        xmax = 1.0'' @ [NL] @
     ''        intervals: size = 2'' @ [NL] @
     ''        intervals [1]:'' @ [NL] @
     ''            xmin = 0.0'' @ [NL] @
     ''            xmax = 0.5'' @ [NL] @
     ''            text = '' @ [DQ] @ ''sil'' @ [DQ, NL] @
     ''        intervals [2]:'' @ [NL] @
     ''            xmin = 0.5'' @ [NL] @
     ''            xmax = 1.0'' @ [NL] @
     ''            text = '' @ [DQ] @ ''k'' @ [DQ, NL]"

definition round_trip :: "string \<Rightarrow> string \<Rightarrow> error + textgrid" where
  "round_trip path text =
     (case parse_text text (new_textgrid path) of
        Inl e \<Rightarrow> Inl e
      | Inr doc \<Rightarrow> parse_text (textgrid_text doc) (new_textgrid path))"

section \<open>Facts about the extension\<close>

lemma rfind_range:
  assumes "c \<in> set p"
  shows "0 \<le> rfind c p \<and> rfind c p < int (length p) \<and> p ! nat (rfind c p) = c"
proof -
  let ?k = "length (takeWhile (\<lambda>x. x \<noteq> c) (rev p))"
  have k: "?k < length p"
  proof -
    have "dropWhile (\<lambda>x. x \<noteq> c) (rev p) \<noteq> []"
      using assms by (simp add: dropWhile_eq_Nil_conv)
    moreover have "length (rev p) = ?k + length (dropWhile (\<lambda>x. x \<noteq> c) (rev p))"
      by (metis length_append takeWhile_dropWhile_id)
    ultimately show ?thesis by simp
  qed
  have "rev p ! ?k = c"
    using k nth_length_takeWhile [of "\<lambda>x. x \<noteq> c" "rev p"] by simp
  then have "p ! (length p - Suc ?k) = c"
    using k by (simp add: rev_nth)
  moreover have "nat (int (length p) - 1 - int ?k) = length p - Suc ?k"
    using k by simp
  ultimately show ?thesis
    using assms k by (simp add: rfind_def)
qed

lemma rfind_absent: "c \<notin> set p \<Longrightarrow> rfind c p = - 1"
  by (simp add: rfind_def)

lemma splitext_dot: "snd (splitext p) = [] \<or> hd (snd (splitext p)) = CHR ''.''"
proof (cases "CHR ''.'' \<in> set p")
  case True
  from rfind_range [OF True]
  have "nat (rfind (CHR ''.'') p) < length p" and "p ! nat (rfind (CHR ''.'') p) = CHR ''.''"
    by auto
  then have "hd (drop (nat (rfind (CHR ''.'') p)) p) = CHR ''.''"
    by (simp add: hd_drop_conv_nth)
  then show ?thesis
    by (simp add: splitext_def Let_def)
next
  case False
  have "rfind (CHR ''/'') p \<ge> - 1"
    using rfind_range [of "CHR ''/''" p] rfind_absent [of "CHR ''/''" p]
    by (cases "CHR ''/'' \<in> set p") auto
  then show ?thesis
    using rfind_absent [OF False] by (simp add: splitext_def Let_def)
qed

lemma splitext_never_bare:
  "snd (splitext p) \<noteq> ''textgrid'' \<and> snd (splitext p) \<noteq> ''TextGrid''
   \<and> snd (splitext p) \<noteq> ''csv'' \<and> snd (splitext p) \<noteq> ''CSV''"
  using splitext_dot [of p] by auto

lemma TextGrid_init_unsupported:
  "TextGrid_init fs read_table path names = Inl UnsupportedFormatError"
  using splitext_never_bare [of path] by (simp add: TextGrid_init_def Let_def)

lemma to_csv_unsupported: "to_csv doc path = Inl UnsupportedFormatError"
  using splitext_never_bare [of path] by (simp add: to_csv_def Let_def)

lemma to_textgrid_unsupported: "to_textgrid fs doc path = Inl UnsupportedFormatError"
  using splitext_never_bare [of path] by (simp add: to_textgrid_def Let_def)

section \<open>Dispatch by extension\<close>

text \<open>
  C2. Loading \<^verbatim>\<open>sample.textgrid\<close> should reach the TextGrid parser and loading
  \<^verbatim>\<open>sample.csv\<close> the table import, and \<^verbatim>\<open>sample.xml\<close> should be rejected as unsupported.
  In the source \<^verbatim>\<open>os.path.splitext\<close> gives the extension with its dot (\<^verbatim>\<open>.textgrid\<close>,
  \<^verbatim>\<open>.csv\<close>), which is compared with the dotless \<^verbatim>\<open>textgrid\<close>, \<^verbatim>\<open>TextGrid\<close>, \<^verbatim>\<open>csv\<close>,
  \<^verbatim>\<open>CSV\<close>: all three paths end in the branch that raises the unsupported-extension error,
  and neither parser is reached.
\<close>

theorem load_dispatch_sample:
  "snd (splitext ''sample.textgrid'') = ''.textgrid''
   \<and> TextGrid_init fs read_table ''sample.textgrid'' names = Inl UnsupportedFormatError
   \<and> snd (splitext ''sample.csv'') = ''.csv''
   \<and> TextGrid_init fs read_table ''sample.csv'' names = Inl UnsupportedFormatError
   \<and> TextGrid_init fs read_table ''sample.xml'' names = Inl UnsupportedFormatError"
  by (simp add: TextGrid_init_unsupported splitext_def rfind_def Let_def)

text \<open>
  C4. Saving a TextGrid to a path that ends in \<^verbatim>\<open>.csv\<close>, and saving a table to a path
  that ends in \<^verbatim>\<open>.textgrid\<close>, should raise the mismatched-operation error. For the same
  reason as above the branches that raise it are never taken: both calls raise the
  unsupported-extension error.
\<close>

theorem mismatched_save_unsupported:
  "to_textgrid fs doc ''out.csv'' = Inl UnsupportedFormatError
   \<and> to_textgrid fs doc ''out.csv'' \<noteq> Inl MismatchedOperationError
   \<and> to_csv doc ''out.textgrid'' = Inl UnsupportedFormatError
   \<and> to_csv doc ''out.textgrid'' \<noteq> Inl MismatchedOperationError"
  by (simp add: to_textgrid_unsupported to_csv_unsupported)

text \<open>
  C7. Exporting a document to a table and importing the table again should give the same
  rows. No path makes \<^verbatim>\<open>to_csv\<close> write a table, and no path makes \<^verbatim>\<open>__init__\<close> read
  one: both raise the unsupported-extension error on every path.
\<close>

theorem table_round_trip_never_runs:
  "to_csv doc path = Inl UnsupportedFormatError
   \<and> TextGrid_init fs read_table path names = Inl UnsupportedFormatError"
  by (simp add: to_csv_unsupported TextGrid_init_unsupported)

section \<open>The serializer's loop\<close>

lemma header_no_interval: "filter is_interval_line (header_text doc) = []"
  by (simp add: header_text_def is_interval_line_def)

lemma tier_no_interval: "filter is_interval_line (tier_text doc i t) = []"
  by (simp add: tier_text_def is_interval_line_def Let_def)

lemma interval_one: "length (filter is_interval_line (interval_text i s e a)) = 1"
  by (simp add: interval_text_def is_interval_line_def)

lemma rows_text_intervals:
  "length (filter is_interval_line (rows_text doc last_tier tier_idx interval_idx rows)) =
     length rows"
  by (induction rows arbitrary: last_tier tier_idx interval_idx)
     (auto simp: tier_no_interval interval_one)

text \<open>
  C9. The loop of \<^verbatim>\<open>to_textgrid\<close> runs over the \<^verbatim>\<open>zip\<close> of the four columns, and the
  text it builds has as many interval blocks as the shortest column has entries. But
  \<^verbatim>\<open>to_textgrid\<close> never comes to the loop: for every document and every path its
  extension check raises the unsupported-extension error, so it writes no interval block
  at all, and it does raise. The document with columns of three, two, three and one
  entries is one such case; its text would have one interval block.
\<close>

theorem zip_truncation_not_reached:
  "to_textgrid fs doc path = Inl UnsupportedFormatError
   \<and> to_textgrid fs ragged_example ''ragged.TextGrid'' = Inl UnsupportedFormatError
   \<and> length (filter is_interval_line (textgrid_pieces ragged_example)) = 1
   \<and> length (filter is_interval_line (textgrid_pieces doc)) =
       min (length (content_tier doc)) (min (length (content_start doc))
         (min (length (content_end doc)) (length (content_annotation doc))))"
proof -
  have g: "length (filter is_interval_line (textgrid_pieces d)) =
       min (length (content_tier d)) (min (length (content_start d))
         (min (length (content_end d)) (length (content_annotation d))))" for d
    by (simp add: textgrid_pieces_def header_no_interval rows_text_intervals zip_rows_def)
  have "length (filter is_interval_line (textgrid_pieces ragged_example)) = 1"
    unfolding g by (simp add: ragged_example_def)
  then show ?thesis
    using g [of doc] by (simp add: to_textgrid_unsupported)
qed

text \<open>
  C5. For the rows (phones, 0.0, 0.5, sil), (phones, 0.5, 1.0, k), (words, 0.0, 1.0, cat)
  the text built by \<^verbatim>\<open>to_textgrid\<close> has two tier blocks, \<^verbatim>\<open>phones\<close> with
  \<^verbatim>\<open>intervals: size = 2\<close> and \<^verbatim>\<open>words\<close> with \<^verbatim>\<open>intervals: size = 1\<close>, the intervals
  numbered 1, 2 and then 1 again. This text is never written: \<^verbatim>\<open>to_textgrid\<close> raises the
  unsupported-extension error before it builds it, also for a path that ends in
  \<^verbatim>\<open>.TextGrid\<close>.
\<close>

theorem grouping_example_not_written:
  "to_textgrid fs grouping_example ''phones.TextGrid'' = Inl UnsupportedFormatError
   \<and> textgrid_text grouping_example = concat
     [''File type = '' @ [DQ] @ ''ooTextFile'' @ [DQ, NL],
      ''Object class = '' @ [DQ] @ ''TextGrid'' @ [DQ, NL],
      [NL],
      ''xmin 0.0'' @ [NL],
      ''xmax 1.0'' @ [NL],
      ''tiers? <exists>'' @ [NL],
      ''size = 2'' @ [NL],
      ''item[]'' @ [NL],
      [TAB] @ ''item [1]'' @ [NL],
      [TAB, TAB] @ ''class = '' @ [DQ] @ ''IntervalTier'' @ [DQ, NL],
      [TAB, TAB] @ ''name = '' @ [DQ] @ ''phones'' @ [DQ, NL],
      [TAB, TAB] @ ''xmin = 0.0'' @ [NL],
      [TAB, TAB] @ ''xmax = 1.0'' @ [NL],
      [TAB, TAB] @ ''intervals: size = 2'' @ [NL],
      [TAB, TAB, TAB] @ ''intervals [1]:'' @ [NL],
      [TAB, TAB, TAB, TAB] @ ''xmin = 0.0'' @ [NL],
      [TAB, TAB, TAB, TAB] @ ''xmax = 0.5'' @ [NL],
      [TAB, TAB, TAB, TAB] @ ''text = '' @ [DQ] @ ''sil'' @ [DQ, NL],
      [TAB, TAB, TAB] @ ''intervals [2]:'' @ [NL],
      [TAB, TAB, TAB, TAB] @ ''xmin = 0.5'' @ [NL],
      [TAB, TAB, TAB, TAB] @ ''xmax = 1.0'' @ [NL],
      [TAB, TAB, TAB, TAB] @ ''text = '' @ [DQ] @ ''k'' @ [DQ, NL],
      [TAB] @ ''item [2]'' @ [NL],
      [TAB, TAB] @ ''class = '' @ [DQ] @ ''IntervalTier'' @ [DQ, NL],
      [TAB, TAB] @ ''name = '' @ [DQ] @ ''words'' @ [DQ, NL],
      [TAB, TAB] @ ''xmin = 0.0'' @ [NL],
      [TAB, TAB] @ ''xmax = 1.0'' @ [NL],
      [TAB, TAB] @ ''intervals: size = 1'' @ [NL],
      [TAB, TAB, TAB] @ ''intervals [1]:'' @ [NL],
      [TAB, TAB, TAB, TAB] @ ''xmin = 0.0'' @ [NL],
      [TAB, TAB, TAB, TAB] @ ''xmax = 1.0'' @ [NL],
      [TAB, TAB, TAB, TAB] @ ''text = '' @ [DQ] @ ''cat'' @ [DQ, NL]]"
proof -
  have "textgrid_text grouping_example = concat
     [''File type = '' @ [DQ] @ ''ooTextFile'' @ [DQ, NL],
      ''Object class = '' @ [DQ] @ ''TextGrid'' @ [DQ, NL],
      [NL],
      ''xmin 0.0'' @ [NL],
      ''xmax 1.0'' @ [NL],
      ''tiers? <exists>'' @ [NL],
      ''size = 2'' @ [NL],
      ''item[]'' @ [NL],
      [TAB] @ ''item [1]'' @ [NL],
      [TAB, TAB] @ ''class = '' @ [DQ] @ ''IntervalTier'' @ [DQ, NL],
      [TAB, TAB] @ ''name = '' @ [DQ] @ ''phones'' @ [DQ, NL],
      [TAB, TAB] @ ''xmin = 0.0'' @ [NL],
      [TAB, TAB] @ ''xmax = 1.0'' @ [NL],
      [TAB, TAB] @ ''intervals: size = 2'' @ [NL],
      [TAB, TAB, TAB] @ ''intervals [1]:'' @ [NL],
      [TAB, TAB, TAB, TAB] @ ''xmin = 0.0'' @ [NL],
      [TAB, TAB, TAB, TAB] @ ''xmax = 0.5'' @ [NL],
      [TAB, TAB, TAB, TAB] @ ''text = '' @ [DQ] @ ''sil'' @ [DQ, NL],
      [TAB, TAB, TAB] @ ''intervals [2]:'' @ [NL],
      [TAB, TAB, TAB, TAB] @ ''xmin = 0.5'' @ [NL],
      [TAB, TAB, TAB, TAB] @ ''xmax = 1.0'' @ [NL],
      [TAB, TAB, TAB, TAB] @ ''text = '' @ [DQ] @ ''k'' @ [DQ, NL],
      [TAB] @ ''item [2]'' @ [NL],
      [TAB, TAB] @ ''class = '' @ [DQ] @ ''IntervalTier'' @ [DQ, NL],
      [TAB, TAB] @ ''name = '' @ [DQ] @ ''words'' @ [DQ, NL],
      [TAB, TAB] @ ''xmin = 0.0'' @ [NL],
      [TAB, TAB] @ ''xmax = 1.0'' @ [NL],
      [TAB, TAB] @ ''intervals: size = 1'' @ [NL],
      [TAB, TAB, TAB] @ ''intervals [1]:'' @ [NL],
      [TAB, TAB, TAB, TAB] @ ''xmin = 0.0'' @ [NL],
      [TAB, TAB, TAB, TAB] @ ''xmax = 1.0'' @ [NL],
      [TAB, TAB, TAB, TAB] @ ''text = '' @ [DQ] @ ''cat'' @ [DQ, NL]]"
    by code_simp
  then show ?thesis
    by (simp only: to_textgrid_unsupported simp_thms)
qed

section \<open>Facts about the patterns\<close>

lemma lit_Some: "lit w s = Some r \<Longrightarrow> s = w @ r"
  by (auto simp: lit_def split: if_splits) (metis append_take_drop_id)

lemma run_ws_lit: "run (ws_plus # lit w # ms) line = Some r \<Longrightarrow> indented w line"
  by (auto simp: indented_def ws_plus_def dest!: lit_Some split: option.splits if_splits)

lemma match_item_indented: "match_item line = Some g \<Longrightarrow> indented ''item'' line"
  unfolding match_item_def by (auto simp del: run.simps simp: bind_eq_Some_conv dest: run_ws_lit)

lemma match_name_indented: "match_name line = Some g \<Longrightarrow> indented ''name'' line"
  unfolding match_name_def by (auto simp del: run.simps simp: bind_eq_Some_conv dest: run_ws_lit)

lemma match_intervals_size_indented:
  "match_intervals_size line = Some g \<Longrightarrow> indented ''intervals:'' line"
  unfolding match_intervals_size_def by (auto simp del: run.simps simp: bind_eq_Some_conv dest: run_ws_lit)

lemma match_interval_xmin_indented:
  "match_interval_xmin line = Some g \<Longrightarrow> indented ''xmin'' line"
  unfolding match_interval_xmin_def by (auto simp del: run.simps simp: bind_eq_Some_conv dest: run_ws_lit)

lemma match_interval_xmax_indented:
  "match_interval_xmax line = Some g \<Longrightarrow> indented ''xmax'' line"
  unfolding match_interval_xmax_def by (auto simp del: run.simps simp: bind_eq_Some_conv dest: run_ws_lit)

lemma match_text_indented: "match_text line = Some g \<Longrightarrow> indented ''text'' line"
  unfolding match_text_def by (auto simp del: run.simps simp: bind_eq_Some_conv dest: run_ws_lit)

lemma indented_space: "indented w line \<Longrightarrow> \<exists>c cs. line = c # cs \<and> is_space c"
  by (cases line) (auto simp: indented_def split: if_splits)

lemma run_lit_head: "run (lit (c # w) # ms) line = Some r \<Longrightarrow> \<exists>cs. line = c # cs"
  by (auto dest!: lit_Some split: option.splits)

lemma indented_same:
  "indented w1 line \<Longrightarrow> indented w2 line \<Longrightarrow>
     take (min (length w1) (length w2)) w1 = take (min (length w1) (length w2)) w2"
proof -
  assume a: "indented w1 line" and b: "indented w2 line"
  let ?b = "dropWhile is_space line"
  let ?m = "min (length w1) (length w2)"
  have "take ?m (take (length w1) ?b) = take ?m ?b"
    by simp
  moreover have "take ?m (take (length w2) ?b) = take ?m ?b"
    by simp
  moreover have "take (length w1) ?b = w1" "take (length w2) ?b = w2"
    using a b by (simp_all add: indented_def)
  ultimately show ?thesis
    by simp
qed

lemma no_space_lit:
  assumes "indented w line" and "\<not> is_space d"
  shows "run (lit (d # v) # ms) line = None"
proof (cases "run (lit (d # v) # ms) line")
  case None then show ?thesis .
next
  case (Some r)
  from run_lit_head [OF Some] obtain cs where "line = d # cs" by blast
  moreover from indented_space [OF assms(1)] obtain c cs' where "line = c # cs'" "is_space c" by blast
  ultimately show ?thesis using assms(2) by simp
qed

lemma indented_no_header:
  assumes "indented w line"
  shows "match_file_type line = None" "match_object_class line = None"
    "match_xmin line = None" "match_xmax line = None"
    "match_tiers line = None" "match_size line = None"
proof -
  note n = no_space_lit [OF assms]
  have s: "\<not> is_space (CHR ''F'')" "\<not> is_space (CHR ''O'')" "\<not> is_space (CHR ''x'')"
    "\<not> is_space (CHR ''t'')" "\<not> is_space (CHR ''s'')"
    by (simp_all add: is_space_def)
  show "match_file_type line = None"
    unfolding match_file_type_def by (simp only: n [OF s(1)] Option.bind.simps)
  show "match_object_class line = None"
    unfolding match_object_class_def by (simp only: n [OF s(2)] Option.bind.simps)
  show "match_xmin line = None"
    unfolding match_xmin_def by (simp only: n [OF s(3)] Option.bind.simps)
  show "match_xmax line = None"
    unfolding match_xmax_def by (simp only: n [OF s(3)] Option.bind.simps)
  show "match_tiers line = None"
    unfolding match_tiers_def by (simp only: n [OF s(4)] Option.bind.simps)
  show "match_size line = None"
    unfolding match_size_def by (simp only: n [OF s(5)] Option.bind.simps option.map)
qed

lemma words_differ:
  assumes "indented w1 line" and "take (min (length w1) (length w2)) w1 \<noteq> take (min (length w1) (length w2)) w2"
  shows "\<not> indented w2 line"
  using assms indented_same by blast

lemma not_indented_none:
  "\<not> indented ''item'' line \<Longrightarrow> match_item line = None"
  "\<not> indented ''name'' line \<Longrightarrow> match_name line = None"
  "\<not> indented ''intervals:'' line \<Longrightarrow> match_intervals_size line = None"
  "\<not> indented ''xmin'' line \<Longrightarrow> match_interval_xmin line = None"
  "\<not> indented ''xmax'' line \<Longrightarrow> match_interval_xmax line = None"
  "\<not> indented ''text'' line \<Longrightarrow> match_text line = None"
proof -
  show "\<not> indented ''item'' line \<Longrightarrow> match_item line = None"
    using match_item_indented by (cases "match_item line") auto
  show "\<not> indented ''name'' line \<Longrightarrow> match_name line = None"
    using match_name_indented by (cases "match_name line") auto
  show "\<not> indented ''intervals:'' line \<Longrightarrow> match_intervals_size line = None"
    using match_intervals_size_indented by (cases "match_intervals_size line") auto
  show "\<not> indented ''xmin'' line \<Longrightarrow> match_interval_xmin line = None"
    using match_interval_xmin_indented by (cases "match_interval_xmin line") auto
  show "\<not> indented ''xmax'' line \<Longrightarrow> match_interval_xmax line = None"
    using match_interval_xmax_indented by (cases "match_interval_xmax line") auto
  show "\<not> indented ''text'' line \<Longrightarrow> match_text line = None"
    using match_text_indented by (cases "match_text line") auto
qed

lemma item_only:
  assumes "match_item line = Some g"
  shows "match_name line = None" "match_intervals_size line = None"
    "match_interval_xmin line = None" "match_interval_xmax line = None" "match_text line = None"
  by (rule not_indented_none, rule words_differ [OF match_item_indented [OF assms]], simp)+

lemma intervals_size_only:
  assumes "match_intervals_size line = Some g"
  shows "match_item line = None" "match_name line = None"
    "match_interval_xmin line = None" "match_interval_xmax line = None" "match_text line = None"
  by (rule not_indented_none, rule words_differ [OF match_intervals_size_indented [OF assms]], simp)+

lemma interval_xmin_only:
  assumes "match_interval_xmin line = Some g"
  shows "match_item line = None" "match_name line = None"
    "match_intervals_size line = None" "match_interval_xmax line = None" "match_text line = None"
  by (rule not_indented_none, rule words_differ [OF match_interval_xmin_indented [OF assms]], simp)+

lemma interval_xmax_only:
  assumes "match_interval_xmax line = Some g"
  shows "match_item line = None" "match_name line = None"
    "match_intervals_size line = None" "match_interval_xmin line = None" "match_text line = None"
  by (rule not_indented_none, rule words_differ [OF match_interval_xmax_indented [OF assms]], simp)+

lemma text_only:
  assumes "match_text line = Some g"
  shows "match_item line = None" "match_name line = None"
    "match_intervals_size line = None" "match_interval_xmin line = None"
    "match_interval_xmax line = None"
  by (rule not_indented_none, rule words_differ [OF match_text_indented [OF assms]], simp)+

section \<open>One line of the loop\<close>

lemmas on_defs = on_file_type_def on_object_class_def on_xmin_def on_xmax_def on_tiers_def
  on_size_def on_item_def on_name_def on_intervals_size_def on_interval_xmin_def
  on_interval_xmax_def on_text_def

lemma parse_line_item:
  assumes "match_item line = Some g"
  shows "parse_line line st =
     (case n_tiers (self st) of
        None \<Rightarrow> Inl TypeError
      | Some n \<Rightarrow> if py_int g - 1 \<ge> n then Inl StructureError
                  else Inr (st\<lparr>tier_header := True\<rparr>))"
  using assms indented_no_header [OF match_item_indented [OF assms]] item_only [OF assms]
  by (simp add: parse_line_def on_defs Let_def split: option.splits)

lemma parse_line_intervals_size:
  assumes "match_intervals_size line = Some g"
  shows "parse_line line st =
     Inr (st\<lparr>self := (self st)\<lparr>content_tier :=
                 content_tier (self st) @ replicate (nat (py_int g)) (tier_name st)\<rparr>,
             tier_header := False\<rparr>)"
  using assms indented_no_header [OF match_intervals_size_indented [OF assms]]
    intervals_size_only [OF assms]
  by (simp add: parse_line_def on_defs)

lemma parse_line_interval_xmin:
  assumes "match_interval_xmin line = Some g"
  shows "parse_line line st =
     (if tier_header st then Inr st
      else case py_float g of
             Inl e \<Rightarrow> Inl e
           | Inr start \<Rightarrow>
               Inr (st\<lparr>self := (self st)\<lparr>content_start := content_start (self st) @ [start]\<rparr>\<rparr>))"
  using assms indented_no_header [OF match_interval_xmin_indented [OF assms]]
    interval_xmin_only [OF assms]
  by (simp add: parse_line_def on_defs split: sum.splits)

lemma parse_line_interval_xmax:
  assumes "match_interval_xmax line = Some g"
  shows "parse_line line st =
     (if tier_header st then Inr st
      else case py_float g of
             Inl e \<Rightarrow> Inl e
           | Inr end_t \<Rightarrow>
               Inr (st\<lparr>self := (self st)\<lparr>content_end := content_end (self st) @ [end_t]\<rparr>\<rparr>))"
  using assms indented_no_header [OF match_interval_xmax_indented [OF assms]]
    interval_xmax_only [OF assms]
  by (simp add: parse_line_def on_defs split: sum.splits)

lemma parse_line_text:
  assumes "match_text line = Some annotation"
  shows "parse_line line st =
     (if tier_header st then Inr st
      else Inr (st\<lparr>self := (self st)\<lparr>content_annotation :=
                        content_annotation (self st) @ [annotation]\<rparr>\<rparr>))"
  using assms indented_no_header [OF match_text_indented [OF assms]] text_only [OF assms]
  by (simp add: parse_line_def on_defs)

lemma parse_lines_append:
  "parse_lines (xs @ ys) st =
     (case parse_lines xs st of Inl e \<Rightarrow> Inl e | Inr st' \<Rightarrow> parse_lines ys st')"
  by (induction xs arbitrary: st) (auto split: sum.splits)

lemma steps_invariant:
  assumes "steps fs line st = Inr st'" and "P st"
    and "\<And>f s s'. f \<in> set fs \<Longrightarrow> P s \<Longrightarrow> f line s = Inr s' \<Longrightarrow> P s'"
  shows "P st'"
  using assms
proof (induction fs arbitrary: st)
  case Nil
  then show ?case by simp
next
  case (Cons f fs)
  from Cons.prems(1) obtain s1 where f: "f line st = Inr s1" and r: "steps fs line s1 = Inr st'"
    by (auto split: sum.splits)
  have s1: "P s1" using Cons.prems(3) [of f st s1] Cons.prems(2) f by simp
  show ?case
  proof (rule Cons.IH [OF r s1])
    fix g s s'
    assume "g \<in> set fs" "P s" "g line s = Inr s'"
    then show "P s'" using Cons.prems(3) [of g s s'] by simp
  qed
qed

lemma parse_line_keeps_n_tiers:
  assumes "match_size line = None" and "parse_line line st = Inr st'"
  shows "n_tiers (self st') = n_tiers (self st)"
proof (rule steps_invariant [where P = "\<lambda>s. n_tiers (self s) = n_tiers (self st)",
      OF assms(2) [unfolded parse_line_def]])
  show "n_tiers (self st) = n_tiers (self st)" ..
next
  fix f s s'
  assume "f \<in> set [on_file_type, on_object_class, on_xmin, on_xmax, on_tiers, on_size,
            on_item, on_name, on_intervals_size,
            on_interval_xmin, on_interval_xmax, on_text]"
    and "n_tiers (self s) = n_tiers (self st)" and "f line s = Inr s'"
  then show "n_tiers (self s') = n_tiers (self st)"
    using assms(1)
    by (auto simp: on_defs Let_def split: option.splits if_splits sum.splits)
qed

lemma parse_lines_keep_n_tiers:
  "list_all (\<lambda>l. match_size l = None) pre \<Longrightarrow> parse_lines pre st = Inr st' \<Longrightarrow>
     n_tiers (self st') = n_tiers (self st)"
proof (induction pre arbitrary: st)
  case Nil
  then show ?case by simp
next
  case (Cons l pre)
  from Cons.prems(2) obtain s1 where l: "parse_line l st = Inr s1" and r: "parse_lines pre s1 = Inr st'"
    by (auto split: sum.splits)
  have "n_tiers (self s1) = n_tiers (self st)"
    using parse_line_keeps_n_tiers [OF _ l] Cons.prems(1) by simp
  then show ?case using Cons.IH [OF _ r] Cons.prems(1) by simp
qed

section \<open>The tier count\<close>

text \<open>
  C3. When the loop reaches an \<^verbatim>\<open>item [N]\<close> line while the declared tier count is \<open>n\<close>
  and \<open>N - 1 \<ge> n\<close>, it raises the too-many-tiers error at that line, and so does the
  parse of the whole text; in particular for a header with \<^verbatim>\<open>size = 2\<close> and a line
  \<^verbatim>\<open>item [3]\<close>.
\<close>

theorem too_many_tiers:
  assumes "splitlines text = pre @ line # post"
    and "parse_lines pre (start_state doc) = Inr st"
    and "n_tiers (self st) = Some n"
    and "match_item line = Some g"
    and "py_int g - 1 \<ge> n"
  shows "parse_line line st = Inl StructureError \<and> parse_text text doc = Inl StructureError"
proof -
  have l: "parse_line line st = Inl StructureError"
    using assms(3,5) by (simp add: parse_line_item [OF assms(4)])
  then show ?thesis
    using assms(1,2) by (simp add: parse_text_def parse_lines_append)
qed

text \<open>The text with \<^verbatim>\<open>size = 2\<close> and a line \<^verbatim>\<open>item [3]\<close>, its fifteenth.\<close>

theorem too_many_tiers_witness:
  "match_item (splitlines extra_tier_text ! 14) = Some ''3''
   \<and> py_int ''3'' - 1 \<ge> 2
   \<and> map_sum id (\<lambda>st. n_tiers (self st))
        (parse_lines (take 14 (splitlines extra_tier_text))
           (start_state (new_textgrid ''x.TextGrid''))) = Inr (Some 2)
   \<and> parse_text extra_tier_text (new_textgrid ''x.TextGrid'') = Inl StructureError"
proof -
  let ?ls = "splitlines extra_tier_text"
  let ?s0 = "start_state (new_textgrid ''x.TextGrid'')"
  have sp: "?ls = take 14 ?ls @ (?ls ! 14) # drop 15 ?ls"
    by code_simp
  have e: "map_sum id (\<lambda>st. n_tiers (self st)) (parse_lines (take 14 ?ls) ?s0) = Inr (Some 2)"
    by code_simp
  then obtain st where p: "parse_lines (take 14 ?ls) ?s0 = Inr st" and n: "n_tiers (self st) = Some 2"
    by (cases "parse_lines (take 14 ?ls) ?s0") auto
  have m: "match_item (?ls ! 14) = Some ''3''"
    by code_simp
  have c: "py_int ''3'' - 1 \<ge> 2"
    by code_simp
  from too_many_tiers [OF sp p n m c] show ?thesis
    using e m c by simp
qed

lemma steps_error:
  assumes "steps fs line st = Inl e" and "P st"
    and "\<And>f s s'. f \<in> set fs \<Longrightarrow> P s \<Longrightarrow> f line s = Inr s' \<Longrightarrow> P s'"
    and "\<And>f s. f \<in> set fs \<Longrightarrow> P s \<Longrightarrow> f line s = Inl e \<Longrightarrow> Q"
  shows Q
  using assms
proof (induction fs arbitrary: st)
  case Nil
  then show ?case by simp
next
  case (Cons f fs)
  show ?case
  proof (cases "f line st")
    case (Inl e')
    then have "e' = e" using Cons.prems(1) by simp
    then show ?thesis using Cons.prems(4) [of f st] Cons.prems(2) Inl by simp
  next
    case (Inr s1)
    then have r: "steps fs line s1 = Inl e" using Cons.prems(1) by simp
    have s1: "P s1" using Cons.prems(3) [of f st s1] Cons.prems(2) Inr by simp
    show ?thesis
    proof (rule Cons.IH [OF r s1])
      fix g s s'
      assume "g \<in> set fs" "P s" "g line s = Inr s'"
      then show "P s'" using Cons.prems(3) [of g s s'] by simp
    next
      fix g s
      assume "g \<in> set fs" "P s" "g line s = Inl e"
      then show Q using Cons.prems(4) [of g s] by simp
    qed
  qed
qed

lemma parse_line_error_without_size:
  assumes "match_size line = None" and "n_tiers (self st) = None" and "parse_line line st = Inl e"
  shows "e = TypeError \<or> e = FloatValueError"
proof (rule steps_error [where P = "\<lambda>s. n_tiers (self s) = None",
      OF assms(3) [unfolded parse_line_def] assms(2)])
  fix f s s'
  assume "f \<in> set [on_file_type, on_object_class, on_xmin, on_xmax, on_tiers, on_size,
            on_item, on_name, on_intervals_size,
            on_interval_xmin, on_interval_xmax, on_text]"
    and "n_tiers (self s) = None" and "f line s = Inr s'"
  then show "n_tiers (self s') = None"
    using assms(1)
    by (auto simp: on_defs Let_def split: option.splits if_splits sum.splits)
next
  fix f s
  assume "f \<in> set [on_file_type, on_object_class, on_xmin, on_xmax, on_tiers, on_size,
            on_item, on_name, on_intervals_size,
            on_interval_xmin, on_interval_xmax, on_text]"
    and "n_tiers (self s) = None" and "f line s = Inl e"
  then show "e = TypeError \<or> e = FloatValueError"
    by (auto simp: on_defs Let_def py_float_def split: option.splits if_splits sum.splits list.splits)
qed

lemma parse_lines_error_without_size:
  "list_all (\<lambda>l. match_size l = None) ls \<Longrightarrow> n_tiers (self st) = None \<Longrightarrow>
     parse_lines ls st = Inl e \<Longrightarrow> e = TypeError \<or> e = FloatValueError"
proof (induction ls arbitrary: st)
  case Nil
  then show ?case by simp
next
  case (Cons l ls)
  show ?case
  proof (cases "parse_line l st")
    case (Inl e')
    then show ?thesis
      using Cons.prems parse_line_error_without_size [of l st e'] by simp
  next
    case (Inr s1)
    then have "n_tiers (self s1) = None"
      using parse_line_keeps_n_tiers [of l st s1] Cons.prems(1,2) by simp
    then show ?thesis
      using Cons.IH [of s1] Cons.prems(1,3) Inr by simp
  qed
qed

text \<open>
  C10. When no line before an indented \<^verbatim>\<open>item [N]\<close> line is a top-level \<^verbatim>\<open>size = N\<close>
  line, the tier count is still \<^verbatim>\<open>None\<close> when the loop reaches the line, and the
  comparison raises \<^verbatim>\<open>TypeError\<close>: the parse ends with that error, not with the
  too-many-tiers error. The loop reaches the line unless \<^verbatim>\<open>float()\<close> has raised on a line
  before it, so the parse of such a text ends with one of these two errors in any case.
\<close>

theorem item_before_size:
  assumes "splitlines text = pre @ line # post"
    and "list_all (\<lambda>l. match_size l = None) pre"
    and "match_item line = Some g"
  shows "(parse_lines pre (start_state (new_textgrid path)) = Inr st \<longrightarrow>
            parse_line line st = Inl TypeError
            \<and> parse_text text (new_textgrid path) = Inl TypeError)
         \<and> (parse_text text (new_textgrid path) = Inl TypeError
            \<or> parse_text text (new_textgrid path) = Inl FloatValueError)"
proof -
  let ?s0 = "start_state (new_textgrid path)"
  have n0: "n_tiers (self ?s0) = None"
    by (simp add: start_state_def new_textgrid_def)
  have reach: "parse_line line s = Inl TypeError \<and> parse_text text (new_textgrid path) = Inl TypeError"
    if p: "parse_lines pre ?s0 = Inr s" for s
  proof -
    have "n_tiers (self s) = None"
      using parse_lines_keep_n_tiers [OF assms(2) p] n0 by simp
    then have l: "parse_line line s = Inl TypeError"
      by (simp add: parse_line_item [OF assms(3)])
    then show ?thesis
      using assms(1) p by (simp add: parse_text_def parse_lines_append)
  qed
  have "parse_text text (new_textgrid path) = Inl TypeError
        \<or> parse_text text (new_textgrid path) = Inl FloatValueError"
  proof (cases "parse_lines pre ?s0")
    case (Inl e)
    then have "e = TypeError \<or> e = FloatValueError"
      using parse_lines_error_without_size [OF assms(2) n0] by simp
    then show ?thesis
      using assms(1) Inl by (auto simp: parse_text_def parse_lines_append)
  next
    case (Inr s)
    then show ?thesis using reach by simp
  qed
  then show ?thesis using reach by blast
qed

text \<open>The text with an \<^verbatim>\<open>item [1]\<close> line, its eighth, and no \<^verbatim>\<open>size\<close> line.\<close>

theorem item_before_size_witness:
  "list_all (\<lambda>l. match_size l = None) (take 7 (splitlines no_size_text))
   \<and> match_item (splitlines no_size_text ! 7) = Some ''1''
   \<and> \<not> isl (parse_lines (take 7 (splitlines no_size_text)) (start_state (new_textgrid ''y.TextGrid'')))
   \<and> parse_text no_size_text (new_textgrid ''y.TextGrid'') = Inl TypeError"
proof -
  let ?ls = "splitlines no_size_text"
  let ?s0 = "start_state (new_textgrid ''y.TextGrid'')"
  have sp: "?ls = take 7 ?ls @ (?ls ! 7) # drop 8 ?ls"
    by code_simp
  have a: "list_all (\<lambda>l. match_size l = None) (take 7 ?ls)"
    by code_simp
  have e: "\<not> isl (parse_lines (take 7 ?ls) ?s0)"
    by code_simp
  then obtain st where p: "parse_lines (take 7 ?ls) ?s0 = Inr st"
    by (cases "parse_lines (take 7 ?ls) ?s0") auto
  have m: "match_item (?ls ! 7) = Some ''1''"
    by code_simp
  from item_before_size [OF sp a m, of "''y.TextGrid''" st] p show ?thesis
    using a e m by simp
qed

section \<open>Interval runs\<close>

lemma parse_line_keeps_tier_header:
  assumes "match_intervals_size line = None" and "tier_header st" and "parse_line line st = Inr st'"
  shows "tier_header st'"
proof (rule steps_invariant [where P = tier_header, OF assms(3) [unfolded parse_line_def] assms(2)])
  fix f s s'
  assume "f \<in> set [on_file_type, on_object_class, on_xmin, on_xmax, on_tiers, on_size,
            on_item, on_name, on_intervals_size,
            on_interval_xmin, on_interval_xmax, on_text]"
    and "tier_header s" and "f line s = Inr s'"
  then show "tier_header s'"
    using assms(1)
    by (auto simp: on_defs Let_def split: option.splits if_splits sum.splits)
qed

lemma parse_line_header_frame:
  assumes "match_intervals_size line = None" and "tier_header st" and "parse_line line st = Inr st'"
  shows "tier_header st' \<and> content_start (self st') = content_start (self st)
     \<and> content_end (self st') = content_end (self st)
     \<and> content_annotation (self st') = content_annotation (self st)"
proof (rule steps_invariant [where P = "\<lambda>s. tier_header s \<and> content_start (self s) = content_start (self st)
     \<and> content_end (self s) = content_end (self st)
     \<and> content_annotation (self s) = content_annotation (self st)",
      OF assms(3) [unfolded parse_line_def]])
  show "tier_header st \<and> content_start (self st) = content_start (self st)
     \<and> content_end (self st) = content_end (self st)
     \<and> content_annotation (self st) = content_annotation (self st)"
    using assms(2) by simp
next
  fix f s s'
  assume "f \<in> set [on_file_type, on_object_class, on_xmin, on_xmax, on_tiers, on_size,
            on_item, on_name, on_intervals_size,
            on_interval_xmin, on_interval_xmax, on_text]"
    and "tier_header s \<and> content_start (self s) = content_start (self st)
     \<and> content_end (self s) = content_end (self st)
     \<and> content_annotation (self s) = content_annotation (self st)"
    and "f line s = Inr s'"
  then show "tier_header s' \<and> content_start (self s') = content_start (self st)
     \<and> content_end (self s') = content_end (self st)
     \<and> content_annotation (self s') = content_annotation (self st)"
    using assms(1)
    by (auto simp: on_defs Let_def split: option.splits if_splits sum.splits)
qed

lemma parse_lines_header_frame:
  "list_all (\<lambda>l. match_intervals_size l = None) ls \<Longrightarrow> tier_header st \<Longrightarrow>
   parse_lines ls st = Inr st' \<Longrightarrow>
     tier_header st' \<and> content_start (self st') = content_start (self st)
     \<and> content_end (self st') = content_end (self st)
     \<and> content_annotation (self st') = content_annotation (self st)"
proof (induction ls arbitrary: st)
  case Nil
  then show ?case by simp
next
  case (Cons l ls)
  from Cons.prems(3) obtain s1 where l: "parse_line l st = Inr s1" and r: "parse_lines ls s1 = Inr st'"
    by (auto split: sum.splits)
  have m: "match_intervals_size l = None" and rest: "list_all (\<lambda>l. match_intervals_size l = None) ls"
    using Cons.prems(1) by simp_all
  note f = parse_line_header_frame [OF m Cons.prems(2) l]
  from f have h1: "tier_header s1" by simp
  from Cons.IH [OF rest h1 r] f show ?case by simp
qed

lemma parse_line_item_ok:
  assumes "match_item line = Some g" and "parse_line line st = Inr st'"
  shows "st' = st\<lparr>tier_header := True\<rparr>"
  using assms(2) unfolding parse_line_item [OF assms(1)]
  by (auto split: option.splits if_splits)

text \<open>
  C8. An \<^verbatim>\<open>intervals: size = N\<close> line appends \<open>N\<close> copies of the current tier name to
  the tier column and sets \<^verbatim>\<open>tier_header\<close> to false, and changes nothing else. While
  \<^verbatim>\<open>tier_header\<close> is true it stays true over every line that is no
  \<^verbatim>\<open>intervals: size\<close> line, and an interval \<^verbatim>\<open>xmin\<close>, \<^verbatim>\<open>xmax\<close> or \<^verbatim>\<open>text\<close> line leaves
  the state as it is. While \<^verbatim>\<open>tier_header\<close> is false, such a line appends its value to
  its own column (for \<^verbatim>\<open>xmin\<close> and \<^verbatim>\<open>xmax\<close>, the number \<^verbatim>\<open>float()\<close> reads from it).
  An \<^verbatim>\<open>item [N]\<close> line that does not raise sets \<^verbatim>\<open>tier_header\<close> to true and changes
  nothing else; so over the lines between an \<^verbatim>\<open>item [N]\<close> line and the next
  \<^verbatim>\<open>intervals: size\<close> line nothing is appended to the start, end and annotation
  columns, whatever \<^verbatim>\<open>tier_header\<close> was before the \<^verbatim>\<open>item [N]\<close> line.
\<close>

theorem interval_run_bookkeeping:
  "(match_intervals_size line = Some g \<longrightarrow>
      parse_line line st =
        Inr (st\<lparr>self := (self st)\<lparr>content_tier :=
                    content_tier (self st) @ replicate (nat (py_int g)) (tier_name st)\<rparr>,
                tier_header := False\<rparr>))
   \<and> (tier_header st \<and> match_intervals_size line = None \<and> parse_line line st = Inr st' \<longrightarrow>
        tier_header st')
   \<and> (tier_header st \<and> match_interval_xmin line = Some g \<longrightarrow> parse_line line st = Inr st)
   \<and> (tier_header st \<and> match_interval_xmax line = Some g \<longrightarrow> parse_line line st = Inr st)
   \<and> (tier_header st \<and> match_text line = Some g \<longrightarrow> parse_line line st = Inr st)
   \<and> (\<not> tier_header st \<and> match_interval_xmin line = Some g \<and> py_float g = Inr v \<longrightarrow>
        parse_line line st =
          Inr (st\<lparr>self := (self st)\<lparr>content_start := content_start (self st) @ [v]\<rparr>\<rparr>))
   \<and> (\<not> tier_header st \<and> match_interval_xmax line = Some g \<and> py_float g = Inr v \<longrightarrow>
        parse_line line st =
          Inr (st\<lparr>self := (self st)\<lparr>content_end := content_end (self st) @ [v]\<rparr>\<rparr>))
   \<and> (\<not> tier_header st \<and> match_text line = Some g \<longrightarrow>
        parse_line line st =
          Inr (st\<lparr>self := (self st)\<lparr>content_annotation :=
                      content_annotation (self st) @ [g]\<rparr>\<rparr>))
   \<and> (match_item line = Some g \<and> parse_line line st = Inr st' \<longrightarrow>
        st' = st\<lparr>tier_header := True\<rparr>)
   \<and> (match_item line = Some g \<and> parse_line line st = Inr st'
        \<and> list_all (\<lambda>l. match_intervals_size l = None) between
        \<and> parse_lines between st' = Inr st'' \<longrightarrow>
        tier_header st''
        \<and> content_start (self st'') = content_start (self st)
        \<and> content_end (self st'') = content_end (self st)
        \<and> content_annotation (self st'') = content_annotation (self st))"
proof (intro conjI impI)
  assume "match_intervals_size line = Some g"
  then show "parse_line line st =
        Inr (st\<lparr>self := (self st)\<lparr>content_tier :=
                    content_tier (self st) @ replicate (nat (py_int g)) (tier_name st)\<rparr>,
                tier_header := False\<rparr>)"
    by (rule parse_line_intervals_size)
next
  assume "tier_header st \<and> match_intervals_size line = None \<and> parse_line line st = Inr st'"
  then show "tier_header st'"
    using parse_line_keeps_tier_header by blast
next
  assume "tier_header st \<and> match_interval_xmin line = Some g"
  then show "parse_line line st = Inr st"
    by (simp add: parse_line_interval_xmin)
next
  assume "tier_header st \<and> match_interval_xmax line = Some g"
  then show "parse_line line st = Inr st"
    by (simp add: parse_line_interval_xmax)
next
  assume "tier_header st \<and> match_text line = Some g"
  then show "parse_line line st = Inr st"
    by (simp add: parse_line_text)
next
  assume "\<not> tier_header st \<and> match_interval_xmin line = Some g \<and> py_float g = Inr v"
  then show "parse_line line st =
          Inr (st\<lparr>self := (self st)\<lparr>content_start := content_start (self st) @ [v]\<rparr>\<rparr>)"
    by (simp add: parse_line_interval_xmin)
next
  assume "\<not> tier_header st \<and> match_interval_xmax line = Some g \<and> py_float g = Inr v"
  then show "parse_line line st =
          Inr (st\<lparr>self := (self st)\<lparr>content_end := content_end (self st) @ [v]\<rparr>\<rparr>)"
    by (simp add: parse_line_interval_xmax)
next
  assume "\<not> tier_header st \<and> match_text line = Some g"
  then show "parse_line line st =
          Inr (st\<lparr>self := (self st)\<lparr>content_annotation :=
                      content_annotation (self st) @ [g]\<rparr>\<rparr>)"
    by (simp add: parse_line_text)
next
  assume "match_item line = Some g \<and> parse_line line st = Inr st'"
  then show "st' = st\<lparr>tier_header := True\<rparr>"
    using parse_line_item_ok by blast
next
  assume a: "match_item line = Some g \<and> parse_line line st = Inr st'
        \<and> list_all (\<lambda>l. match_intervals_size l = None) between
        \<and> parse_lines between st' = Inr st''"
  then have s: "st' = st\<lparr>tier_header := True\<rparr>"
    using parse_line_item_ok by blast
  then have h: "tier_header st'"
    by simp
  from a have b: "list_all (\<lambda>l. match_intervals_size l = None) between"
    and p: "parse_lines between st' = Inr st''"
    by simp_all
  note f = parse_lines_header_frame [OF b h p]
  from f show "tier_header st''" by simp
  from f s show "content_start (self st'') = content_start (self st)" by simp
  from f s show "content_end (self st'') = content_end (self st)" by simp
  from f s show "content_annotation (self st'') = content_annotation (self st)" by simp
qed

text \<open>
  Each part at a line of the tier \<^verbatim>\<open>phones\<close>, in its header and in its run; and the
  \<^verbatim>\<open>item [2]\<close> line with the header lines of the second tier, met in the run of the first.
\<close>

theorem interval_run_bookkeeping_witness:
  "parse_line ''        intervals: size = 2'' header_state =
     Inr (header_state\<lparr>self := (self header_state)\<lparr>content_tier := [Some ''phones'', Some ''phones'']\<rparr>,
                       tier_header := False\<rparr>)
   \<and> tier_header (header_state\<lparr>tier_name := Some ''words''\<rparr>)
   \<and> parse_line ''            xmin = 0.5'' header_state = Inr header_state
   \<and> parse_line ''            xmax = 1'' header_state = Inr header_state
   \<and> parse_line (''            text = '' @ [DQ] @ ''sil'' @ [DQ]) header_state = Inr header_state
   \<and> parse_line ''            xmin = 0.5'' run_state =
       Inr (run_state\<lparr>self := (self run_state)\<lparr>content_start := [1 / 2]\<rparr>\<rparr>)
   \<and> parse_line ''            xmax = 1'' run_state =
       Inr (run_state\<lparr>self := (self run_state)\<lparr>content_end := [1]\<rparr>\<rparr>)
   \<and> parse_line (''            text = '' @ [DQ] @ ''sil'' @ [DQ]) run_state =
       Inr (run_state\<lparr>self := (self run_state)\<lparr>content_annotation := [''sil'']\<rparr>\<rparr>)
   \<and> parse_line ''    item [2]:'' second_tier_state = Inr (second_tier_state\<lparr>tier_header := True\<rparr>)
   \<and> map_sum id
        (\<lambda>s. (tier_header s, content_start (self s), content_end (self s),
              content_annotation (self s)))
        (parse_lines (''    item [2]:'' # tier_header_lines) second_tier_state) =
       Inr (True, [0], [1], [''sil''])"
proof -
  let ?size = "''        intervals: size = 2''"
  let ?name = "''        name = '' @ [DQ] @ ''words'' @ [DQ]"
  let ?xmin = "''            xmin = 0.5''"
  let ?xmax = "''            xmax = 1''"
  let ?text = "''            text = '' @ [DQ] @ ''sil'' @ [DQ]"
  note T = interval_run_bookkeeping
  have h: "tier_header header_state" "\<not> tier_header run_state"
    by (simp_all add: header_state_def run_state_def start_state_def)
  have e: "content_tier (self header_state) = []" "tier_name header_state = Some ''phones''"
    "content_start (self run_state) = []" "content_end (self run_state) = []"
    "content_annotation (self run_state) = []"
    by (simp_all add: header_state_def run_state_def start_state_def new_textgrid_def)
  have m1: "match_intervals_size ?size = Some ''2''" by code_simp
  have n2: "nat (py_int ''2'') = 2" by code_simp
  have c1: "parse_line ?size header_state =
     Inr (header_state\<lparr>self := (self header_state)\<lparr>content_tier := [Some ''phones'', Some ''phones'']\<rparr>,
                       tier_header := False\<rparr>)"
    using T [where line = ?size and g = "''2''" and st = header_state] m1
    by (simp add: e n2 numeral_2_eq_2)
  have m2: "match_intervals_size ?name = None" by code_simp
  have p2: "parse_line ?name header_state = Inr (header_state\<lparr>tier_name := Some ''words''\<rparr>)"
    by code_simp
  have c2: "tier_header (header_state\<lparr>tier_name := Some ''words''\<rparr>)"
    using T [where line = ?name and st = header_state
        and st' = "header_state\<lparr>tier_name := Some ''words''\<rparr>"] h(1) m2 p2
    by blast
  have m3: "match_interval_xmin ?xmin = Some ''0.5''" by code_simp
  have m4: "match_interval_xmax ?xmax = Some ''1''" by code_simp
  have m5: "match_text ?text = Some ''sil''" by code_simp
  have f3: "py_float ''0.5'' = Inr (1 / 2)" by code_simp
  have f4: "py_float ''1'' = Inr 1" by code_simp
  have c3: "parse_line ?xmin header_state = Inr header_state"
    using T [where line = ?xmin and g = "''0.5''" and st = header_state] h(1) m3 by blast
  have c4: "parse_line ?xmax header_state = Inr header_state"
    using T [where line = ?xmax and g = "''1''" and st = header_state] h(1) m4 by blast
  have c5: "parse_line ?text header_state = Inr header_state"
    using T [where line = ?text and g = "''sil''" and st = header_state] h(1) m5 by blast
  have c6: "parse_line ?xmin run_state =
       Inr (run_state\<lparr>self := (self run_state)\<lparr>content_start := [1 / 2]\<rparr>\<rparr>)"
    using T [where line = ?xmin and g = "''0.5''" and st = run_state and v = "1 / 2"] h(2) m3 f3
    by (simp add: e)
  have c7: "parse_line ?xmax run_state =
       Inr (run_state\<lparr>self := (self run_state)\<lparr>content_end := [1]\<rparr>\<rparr>)"
    using T [where line = ?xmax and g = "''1''" and st = run_state and v = 1] h(2) m4 f4
    by (simp add: e)
  have c8: "parse_line ?text run_state =
       Inr (run_state\<lparr>self := (self run_state)\<lparr>content_annotation := [''sil'']\<rparr>\<rparr>)"
    using T [where line = ?text and g = "''sil''" and st = run_state] h(2) m5
    by (simp add: e)
  let ?item = "''    item [2]:''"
  have m9: "match_item ?item = Some ''2''" by code_simp
  have "\<not> isl (parse_line ?item second_tier_state)" by code_simp
  then obtain s1 where p9: "parse_line ?item second_tier_state = Inr s1"
    by (cases "parse_line ?item second_tier_state") auto
  have s1: "s1 = second_tier_state\<lparr>tier_header := True\<rparr>"
    using T [where line = ?item and g = "''2''" and st = second_tier_state and st' = s1,
        THEN conjunct2, THEN conjunct2, THEN conjunct2, THEN conjunct2, THEN conjunct2,
        THEN conjunct2, THEN conjunct2, THEN conjunct2, THEN conjunct1] m9 p9
    by simp
  have c9: "parse_line ?item second_tier_state = Inr (second_tier_state\<lparr>tier_header := True\<rparr>)"
    using p9 s1 by simp
  have b10: "list_all (\<lambda>l. match_intervals_size l = None) tier_header_lines" by code_simp
  have "\<not> isl (parse_lines tier_header_lines (second_tier_state\<lparr>tier_header := True\<rparr>))"
    by code_simp
  then obtain s2 where p10: "parse_lines tier_header_lines s1 = Inr s2"
    unfolding s1 by (cases "parse_lines tier_header_lines (second_tier_state\<lparr>tier_header := True\<rparr>)") auto
  have f10: "tier_header s2
        \<and> content_start (self s2) = content_start (self second_tier_state)
        \<and> content_end (self s2) = content_end (self second_tier_state)
        \<and> content_annotation (self s2) = content_annotation (self second_tier_state)"
    using T [where line = ?item and g = "''2''" and st = second_tier_state and st' = s1
        and between = tier_header_lines and st'' = s2,
        THEN conjunct2, THEN conjunct2, THEN conjunct2, THEN conjunct2, THEN conjunct2,
        THEN conjunct2, THEN conjunct2, THEN conjunct2, THEN conjunct2] m9 p9 b10 p10
    by simp
  have c10: "map_sum id
        (\<lambda>s. (tier_header s, content_start (self s), content_end (self s),
              content_annotation (self s)))
        (parse_lines (?item # tier_header_lines) second_tier_state) =
       Inr (True, [0], [1], [''sil''])"
    using p9 p10 f10 by (simp add: second_tier_state_def)
  show ?thesis
    using c1 c2 c3 c4 c5 c6 c7 c8 c9 c10 by simp
qed

section \<open>Numbers without a fractional part\<close>

text \<open>
  C6. A number written without a fractional part, as in \<^verbatim>\<open>xmin = 0\<close>, should be read by
  the top-level and by the interval-level patterns alike. The interval-level patterns
  (\<^verbatim>\<open>\d*\.*\d*\<close>) read it; the top-level patterns (\<^verbatim>\<open>\d+\.\d+\<close>) ask for a dot and
  digits after it, so the top-level lines \<^verbatim>\<open>xmin = 0\<close> and \<^verbatim>\<open>xmax = 2\<close> match nothing and
  the header bounds stay \<^verbatim>\<open>None\<close>, where \<^verbatim>\<open>xmin = 0.0\<close> and \<^verbatim>\<open>xmax = 2.0\<close> set them.
\<close>

theorem integer_header_bounds_dropped:
  "match_xmin ''xmin = 0'' = None
   \<and> match_xmax ''xmax = 2'' = None
   \<and> map_sum id (\<lambda>doc. (xmin doc, xmax doc))
        (parse_text (''xmin = 0'' @ [NL] @ ''xmax = 2'' @ [NL]) (new_textgrid ''t.TextGrid''))
       = Inr (None, None)
   \<and> map_sum id (\<lambda>doc. (xmin doc, xmax doc))
        (parse_text (''xmin = 0.0'' @ [NL] @ ''xmax = 2.0'' @ [NL]) (new_textgrid ''t.TextGrid''))
       = Inr (Some 0, Some 2)
   \<and> match_interval_xmin ''    xmin = 0'' = Some ''0''
   \<and> match_interval_xmax ''    xmax = 2'' = Some ''2''
   \<and> py_float ''0'' = Inr 0 \<and> py_float ''2'' = Inr 2"
  by code_simp

section \<open>Writing and reading again\<close>

text \<open>
  C1. Parsing a well-formed text, writing the document and parsing what was written
  should give the header fields and the rows again. The writer puts the header bounds as
  \<^verbatim>\<open>xmin 0.0\<close> and \<^verbatim>\<open>xmax 1.0\<close>, with no \<^verbatim>\<open>=\<close>, which the top-level patterns do not
  match: the document read again has \<^verbatim>\<open>xmin\<close> and \<^verbatim>\<open>xmax\<close> \<^verbatim>\<open>None\<close> where the first had
  0.0 and 1.0. The rows of this text do come back.
\<close>

theorem header_bounds_lost_on_round_trip:
  "map_sum id (\<lambda>doc. (xmin doc, xmax doc)) (parse_text well_formed_text (new_textgrid ''a.TextGrid''))
     = Inr (Some 0, Some 1)
   \<and> map_sum id (\<lambda>doc. take 2 (drop 3 (header_text doc))) (parse_text well_formed_text (new_textgrid ''a.TextGrid''))
     = Inr [''xmin 0.0'' @ [NL], ''xmax 1.0'' @ [NL]]
   \<and> match_xmin ''xmin 0.0'' = None \<and> match_xmax ''xmax 1.0'' = None
   \<and> map_sum id (\<lambda>doc. (xmin doc, xmax doc)) (round_trip ''a.TextGrid'' well_formed_text)
     = Inr (None, None)
   \<and> map_sum id zip_rows (round_trip ''a.TextGrid'' well_formed_text)
     = map_sum id zip_rows (parse_text well_formed_text (new_textgrid ''a.TextGrid''))"
  by code_simp

end
